theory Spec2Isabelle
  imports Main
begin

section \<open>Data model\<close>

text \<open>
  Times are milliseconds since the epoch (\<open>Date.now()\<close>), document ids are numbers.
  An absent (\<open>undefined\<close> or \<open>null\<close>) field is \<open>None\<close>.
\<close>

type_synonym time = nat
type_synonym objectId = nat

text \<open>
  A role document (role.model.js). \<open>rid\<close> is \<open>_id\<close>; \<open>roleActive\<close> and
  \<open>roleDeleted\<close> are the role's \<open>isActive\<close> and \<open>isDeleted\<close>.
\<close>

record role =
  rid :: objectId
  name :: string
  description :: "string option"
  permissions :: "string list"
  isDefault :: bool
  isSystem :: bool
  roleActive :: bool
  roleDeleted :: bool

section \<open>Permission checks\<close>

text \<open>
  The Mongoose role model (role.model.js): each of the three methods first returns
  \<open>false\<close> for a role that is inactive or deleted, then \<open>true\<close> for a role that
  holds \<open>admin:all\<close>, and only then looks at the permissions asked for.
\<close>

definition hasPermission :: "role \<Rightarrow> string \<Rightarrow> bool" where
  "hasPermission r permission =
     (if \<not> roleActive r \<or> roleDeleted r then False
      else if ''admin:all'' \<in> set (permissions r) then True
      else permission \<in> set (permissions r))"

definition hasAnyPermission :: "role \<Rightarrow> string list \<Rightarrow> bool" where
  "hasAnyPermission r ps =
     (if \<not> roleActive r \<or> roleDeleted r then False
      else if ''admin:all'' \<in> set (permissions r) then True
      else list_ex (\<lambda>permission. permission \<in> set (permissions r)) ps)"

definition hasAllPermissions :: "role \<Rightarrow> string list \<Rightarrow> bool" where
  "hasAllPermissions r ps =
     (if \<not> roleActive r \<or> roleDeleted r then False
      else if ''admin:all'' \<in> set (permissions r) then True
      else list_all (\<lambda>permission. permission \<in> set (permissions r)) ps)"

text \<open>
  The Sequelize role model: \<open>hasPermission\<close> is membership of the permission or of
  \<open>admin:all\<close>; the other two are \<open>some\<close> and \<open>every\<close> over it.
\<close>

definition pg_hasPermission :: "role \<Rightarrow> string \<Rightarrow> bool" where
  "pg_hasPermission r permission =
     (permission \<in> set (permissions r) \<or> ''admin:all'' \<in> set (permissions r))"

definition pg_hasAnyPermission :: "role \<Rightarrow> string list \<Rightarrow> bool" where
  "pg_hasAnyPermission r ps = list_ex (\<lambda>permission. pg_hasPermission r permission) ps"

definition pg_hasAllPermissions :: "role \<Rightarrow> string list \<Rightarrow> bool" where
  "pg_hasAllPermissions r ps = list_all (\<lambda>permission. pg_hasPermission r permission) ps"

section \<open>Errors\<close>

text \<open>
  What a service can throw: an \<open>ApiError\<close> (message, status code, operational flag),
  a JavaScript \<open>TypeError\<close> (a property read on \<open>null\<close>), a plain \<open>Error\<close> raised by
  a model hook or by the mailer, a schema validation failure, a duplicate key on a unique
  index, and the errors of the \<open>jsonwebtoken\<close> library.
\<close>

datatype jwt_error = TokenExpiredError | JsonWebTokenError | NotBeforeError

datatype error =
    ApiError string nat bool
  | TypeError string
  | PlainError string
  | ValidationError string
  | DuplicateKey string
  | JwtError jwt_error

definition badRequest :: "string \<Rightarrow> error" where
  "badRequest message = ApiError message 400 True"

definition unauthorized :: "string \<Rightarrow> error" where
  "unauthorized message = ApiError message 401 True"

definition notFound :: "string \<Rightarrow> error" where
  "notFound message = ApiError message 404 True"

definition internalError :: "string \<Rightarrow> error" where
  "internalError message = ApiError message 500 False"

definition invalidCredentials :: "string \<Rightarrow> error" where
  "invalidCredentials message = ApiError message 401 True"

fun isApiError :: "error \<Rightarrow> bool" where
  "isApiError (ApiError m c b) = True"
| "isApiError e = False"

section \<open>Strings\<close>

text \<open>
  \<open>toLowerCase\<close>, \<open>trim\<close> and \<open>replace(/\s+/g, '-')\<close>. A character stands for a
  code unit below 256. Of these, the capitals are \<open>A\<close> to \<open>Z\<close> (65 to 90) and the
  Latin-1 capitals 192 to 222 without the multiplication sign 215, each 32 below its
  small letter; the white space characters are tab, line feed, vertical tab, form feed,
  carriage return (9 to 13), space (32) and the no-break space (160).
\<close>

definition lower_char :: "char \<Rightarrow> char" where
  "lower_char c =
     (let n = (of_char c :: nat)
      in if (65 \<le> n \<and> n \<le> 90) \<or> (192 \<le> n \<and> n \<le> 222 \<and> n \<noteq> 215)
         then char_of (n + 32) else c)"

definition toLowerCase :: "string \<Rightarrow> string" where
  "toLowerCase s = map lower_char s"

definition is_space :: "char \<Rightarrow> bool" where
  "is_space c = (let n = (of_char c :: nat) in n = 32 \<or> (9 \<le> n \<and> n \<le> 13) \<or> n = 160)"

definition trim :: "string \<Rightarrow> string" where
  "trim s = rev (dropWhile is_space (rev (dropWhile is_space s)))"

function spaces_to_dash :: "string \<Rightarrow> string" where
  "spaces_to_dash [] = []"
| "spaces_to_dash (c # cs) =
     (if is_space c then CHR ''-'' # spaces_to_dash (dropWhile is_space cs)
      else c # spaces_to_dash cs)"
  by pat_completeness auto
termination
  by (relation "measure length") (auto simp: length_dropWhile_le less_Suc_eq_le)

fun digit_char :: "nat \<Rightarrow> char" where
  "digit_char n = char_of (48 + n)"

fun decimal :: "nat \<Rightarrow> string" where
  "decimal n = (if n < 10 then [digit_char n] else decimal (n div 10) @ [digit_char (n mod 10)])"

section \<open>The role model and its save hooks\<close>

text \<open>
  The schema's validators: the name is required and has 2 to 50 characters, the
  description at most 200, and every permission is one of the enumerated values.
\<close>

definition permission_enum :: "string list" where
  "permission_enum =
     [''user:read'', ''user:create'', ''user:update'', ''user:delete'', ''user:list'',
      ''role:read'', ''role:create'', ''role:update'', ''role:delete'', ''role:list'',
      ''auth:login'', ''auth:register'', ''auth:refresh'', ''auth:logout'',
      ''profile:read'', ''profile:update'', ''profile:delete'',
      ''admin:all'', ''admin:users'', ''admin:roles'', ''admin:system'',
      ''content:read'', ''content:create'', ''content:update'', ''content:delete'',
      ''content:publish'',
      ''file:upload'', ''file:download'', ''file:delete'', ''file:list'']"

definition validate_role :: "role \<Rightarrow> bool" where
  "validate_role r =
     (2 \<le> length (name r) \<and> length (name r) \<le> 50
      \<and> (case description r of None \<Rightarrow> True | Some d \<Rightarrow> length d \<le> 200)
      \<and> list_all (\<lambda>p. p \<in> set permission_enum) (permissions r))"

text \<open>
  The paths of a document that differ from the stored original (\<open>modifiedPaths()\<close>);
  a new document has no original and every path it sets counts as modified.
\<close>

definition modifiedPaths :: "role option \<Rightarrow> role \<Rightarrow> string list" where
  "modifiedPaths orig r =
     (case orig of
        None \<Rightarrow> [''name''] @ (if description r = None then [] else [''description''])
                 @ [''permissions'', ''isDefault'', ''isSystem'', ''isActive'', ''isDeleted'']
      | Some old \<Rightarrow>
          (if name r \<noteq> name old then [''name''] else [])
          @ (if description r \<noteq> description old then [''description''] else [])
          @ (if permissions r \<noteq> permissions old then [''permissions''] else [])
          @ (if isDefault r \<noteq> isDefault old then [''isDefault''] else [])
          @ (if isSystem r \<noteq> isSystem old then [''isSystem''] else [])
          @ (if roleActive r \<noteq> roleActive old then [''isActive''] else [])
          @ (if roleDeleted r \<noteq> roleDeleted old then [''isDeleted''] else []))"

text \<open>
  The three pre-save hooks, on the paths that were modified when the document was
  given its new values. First hook: a modified name is lower-cased and its white space
  dashed.
\<close>

definition pre_save_name :: "string list \<Rightarrow> role \<Rightarrow> role" where
  "pre_save_name paths r =
     (if ''name'' \<in> set paths then r\<lparr>name := spaces_to_dash (toLowerCase (name r))\<rparr> else r)"

text \<open>Second hook: a system role cannot be flagged deleted.\<close>

definition pre_save_deletion :: "string list \<Rightarrow> role \<Rightarrow> error option" where
  "pre_save_deletion paths r =
     (if ''isDeleted'' \<in> set paths \<and> roleDeleted r \<and> isSystem r
      then Some (PlainError ''Cannot delete system roles'') else None)"

text \<open>
  Third hook, for a system role that is modified and not new. \<open>modifiedPaths()\<close> is an
  array of path names, and the hook takes \<open>Object.keys\<close> of it, which are the array's
  indices \<open>0, 1, ...\<close> as strings; these are what it compares with the allowed names.
\<close>

definition allowedModifications :: "string list" where
  "allowedModifications = [''description'', ''isActive'', ''updatedAt'']"

definition pre_save_system :: "string list \<Rightarrow> bool \<Rightarrow> role \<Rightarrow> error option" where
  "pre_save_system paths isNew r =
     (if isSystem r \<and> paths \<noteq> [] \<and> \<not> isNew then
        (let modifiedFields = map decimal [0 ..< length paths];
             hasUnauthorizedModifications =
               list_ex (\<lambda>field. field \<notin> set allowedModifications) modifiedFields
         in if hasUnauthorizedModifications
            then Some (PlainError ''Cannot modify system role properties'') else None)
      else None)"

text \<open>
  \<open>role.save()\<close>: validation, the three hooks in the order they are registered, then
  the write, which the unique index on \<open>name\<close> can refuse. A new document is appended,
  an existing one replaces the stored document with its \<open>_id\<close>. The timestamps the
  schema asks the library to maintain are not part of the model.
\<close>

definition save_role :: "role option \<Rightarrow> role \<Rightarrow> role list \<Rightarrow> error + (role \<times> role list)" where
  "save_role orig r rs =
     (if \<not> validate_role r then Inl (ValidationError ''Role validation failed'')
      else
        let paths = modifiedPaths orig r;
            r1 = pre_save_name paths r
        in
        case pre_save_deletion paths r1 of
          Some e \<Rightarrow> Inl e
        | None \<Rightarrow>
            (case pre_save_system paths (orig = None) r1 of
               Some e \<Rightarrow> Inl e
             | None \<Rightarrow>
                 if list_ex (\<lambda>other. rid other \<noteq> rid r1 \<and> name other = name r1) rs
                 then Inl (DuplicateKey ''name'')
                 else
                   (case orig of
                      None \<Rightarrow> Inr (r1, rs @ [r1])
                    | Some old \<Rightarrow>
                        Inr (r1, map (\<lambda>stored. if rid stored = rid r1 then r1 else stored) rs))))"

text \<open>
  The Sequelize role model's \<open>beforeSave\<close> hook, given the role about to be saved and
  whether \<open>isDefault\<close>, respectively anything, has changed. Its first step writes to the
  other rows before the second can throw, so the rows come back in either case.
\<close>

definition pg_beforeSave :: "role \<Rightarrow> bool \<Rightarrow> bool \<Rightarrow> role list \<Rightarrow> error option \<times> role list" where
  "pg_beforeSave r changedDefault changedAny rs =
     (let rs1 = (if isDefault r \<and> changedDefault
                 then map (\<lambda>other. if rid other \<noteq> rid r \<and> \<not> roleDeleted other
                                    then other\<lparr>isDefault := False\<rparr> else other) rs
                 else rs)
      in if isSystem r \<and> changedAny then
           (case find (\<lambda>stored. rid stored = rid r) rs1 of
              Some originalRole \<Rightarrow>
                if isSystem originalRole then (Some (PlainError ''Cannot modify system roles''), rs1)
                else (None, rs1)
            | None \<Rightarrow> (None, rs1))
         else (None, rs1))"

section \<open>The role service\<close>

text \<open>The fields a caller can put in \<open>roleData\<close> and in \<open>updateData\<close>.\<close>

record roleData =
  rd_name :: string
  rd_description :: "string option"
  rd_permissions :: "string list"
  rd_isDefault :: "bool option"
  rd_isSystem :: "bool option"
  rd_isActive :: "bool option"

record updateData =
  up_name :: "string option"
  up_description :: "string option"
  up_permissions :: "string list option"
  up_isDefault :: "bool option"
  up_isSystem :: "bool option"
  up_isActive :: "bool option"
  up_isDeleted :: "bool option"

definition findById :: "objectId \<Rightarrow> role list \<Rightarrow> role option" where
  "findById roleId rs = find (\<lambda>r. rid r = roleId) rs"

text \<open>
  \<open>new Role(roleData)\<close>: the schema trims the two strings and fills in the defaults
  of the flags; \<open>newId\<close> is the \<open>_id\<close> the driver generates.
\<close>

definition new_Role :: "objectId \<Rightarrow> roleData \<Rightarrow> role" where
  "new_Role newId d =
     \<lparr>rid = newId, name = trim (rd_name d), description = map_option trim (rd_description d),
      permissions = rd_permissions d,
      isDefault = (case rd_isDefault d of None \<Rightarrow> False | Some b \<Rightarrow> b),
      isSystem = (case rd_isSystem d of None \<Rightarrow> False | Some b \<Rightarrow> b),
      roleActive = (case rd_isActive d of None \<Rightarrow> True | Some b \<Rightarrow> b),
      roleDeleted = False\<rparr>"

definition createRole :: "objectId \<Rightarrow> roleData \<Rightarrow> role list \<Rightarrow> error + (role \<times> role list)" where
  "createRole newId d rs =
     (case find (\<lambda>r. name r = rd_name d \<and> \<not> roleDeleted r) rs of
        Some existingRole \<Rightarrow> Inl (badRequest ''Role with this name already exists'')
      | None \<Rightarrow>
          (case save_role None (new_Role newId d) rs of
             Inl e \<Rightarrow> Inl (if isApiError e then e else internalError ''Failed to create role'')
           | Inr saved \<Rightarrow> Inr saved))"

text \<open>
  The loop of \<open>updateRole\<close> over the keys of \<open>updateData\<close>: a key is assigned when
  the role has a value under it, which of the modelled fields only \<open>description\<close>
  can lack.
\<close>

definition assign_fields :: "updateData \<Rightarrow> role \<Rightarrow> role" where
  "assign_fields u r =
     r\<lparr>name := (case up_name u of None \<Rightarrow> name r | Some n \<Rightarrow> trim n),
       description := (case up_description u of
                         None \<Rightarrow> description r
                       | Some d \<Rightarrow> if description r = None then None else Some (trim d)),
       permissions := (case up_permissions u of None \<Rightarrow> permissions r | Some ps \<Rightarrow> ps),
       isDefault := (case up_isDefault u of None \<Rightarrow> isDefault r | Some b \<Rightarrow> b),
       isSystem := (case up_isSystem u of None \<Rightarrow> isSystem r | Some b \<Rightarrow> b),
       roleActive := (case up_isActive u of None \<Rightarrow> roleActive r | Some b \<Rightarrow> b),
       roleDeleted := (case up_isDeleted u of None \<Rightarrow> roleDeleted r | Some b \<Rightarrow> b)\<rparr>"

definition name_conflict :: "objectId \<Rightarrow> updateData \<Rightarrow> role \<Rightarrow> role list \<Rightarrow> bool" where
  "name_conflict roleId u r rs =
     (case up_name u of
        None \<Rightarrow> False
      | Some n \<Rightarrow>
          n \<noteq> [] \<and> n \<noteq> name r
          \<and> find (\<lambda>other. name other = n \<and> \<not> roleDeleted other \<and> rid other \<noteq> roleId) rs \<noteq> None)"

definition updateRole :: "objectId \<Rightarrow> updateData \<Rightarrow> role list \<Rightarrow> error + (role \<times> role list)" where
  "updateRole roleId u rs =
     (case findById roleId rs of
        None \<Rightarrow> Inl (notFound ''Role not found'')
      | Some r \<Rightarrow>
          if isSystem r then Inl (badRequest ''Cannot update system roles'')
          else if name_conflict roleId u r rs
          then Inl (badRequest ''Role with this name already exists'')
          else
            (case save_role (Some r) (assign_fields u r) rs of
               Inl e \<Rightarrow> Inl (if isApiError e then e else internalError ''Failed to update role'')
             | Inr saved \<Rightarrow> Inr saved))"

section \<open>Users, tokens and the store\<close>

text \<open>
  A user document with the fields the authentication service reads and writes;
  \<open>uid\<close> is \<open>_id\<close> and \<open>urole\<close> the reference \<open>role\<close>.
\<close>

record user =
  uid :: objectId
  email :: string
  password :: string
  urole :: objectId
  isEmailVerified :: bool
  emailVerificationToken :: "string option"
  emailVerificationExpires :: "time option"
  passwordResetToken :: "string option"
  passwordResetExpires :: "time option"
  loginAttempts :: nat
  lockUntil :: "time option"
  isActive :: bool
  isDeleted :: bool
  lastLogin :: "time option"

text \<open>
  A token document (the Mongoose token model). The schema puts a unique index on the
  \<open>token\<close> string, so the collection is a map from that string to the rest of the
  document: owner, type, expiry and the revoked flag.
\<close>

datatype tokenType = Refresh | Reset | Verification

record tokenDoc =
  userId :: objectId
  tokType :: tokenType
  expiresAt :: time
  isRevoked :: bool

type_synonym tokenStore = "string \<rightharpoonup> tokenDoc"

record db =
  users :: "user list"
  roles :: "role list"
  tokens :: tokenStore

text \<open>
  What the services take from outside the repository: \<open>bcrypt.compare\<close>, the
  \<open>jsonwebtoken\<close> calls of config/jwt.js with their configured secrets, and whether
  the mail transport accepts a message for a recipient. \<open>hashOnSave\<close> is what saving
  a user does to a newly assigned password; it is a parameter, since the model that
  hashes it is not among the sources.
\<close>

record accessPayload =
  ap_id :: objectId
  ap_email :: string
  ap_role :: string
  ap_permissions :: "string list"

record refreshPayload =
  rp_id :: objectId
  rp_email :: string
  rp_role :: string

record env =
  bcrypt_compare :: "string \<Rightarrow> string \<Rightarrow> bool"
  hashOnSave :: "string \<Rightarrow> string"
  generateAccessToken :: "accessPayload \<Rightarrow> time \<Rightarrow> string"
  generateRefreshToken :: "refreshPayload \<Rightarrow> time \<Rightarrow> string"
  verifyJWTRefreshToken :: "string \<Rightarrow> time \<Rightarrow> jwt_error + refreshPayload"
  sendMail :: "string \<Rightarrow> bool"

section \<open>The user model\<close>

text \<open>
  The lookup by email and the three lockout methods follow the Sequelize user model,
  the one user model among the sources. \<open>login\<close> uses the result of \<open>isLocked()\<close>
  as a boolean and calls the increment under the name \<open>incLoginAttempts\<close>. A write
  goes to the stored document with the user's \<open>_id\<close>.
\<close>

definition updateUser :: "objectId \<Rightarrow> (user \<Rightarrow> user) \<Rightarrow> user list \<Rightarrow> user list" where
  "updateUser i f us = map (\<lambda>d. if uid d = i then f d else d) us"

definition findByEmail :: "string \<Rightarrow> user list \<Rightarrow> user option" where
  "findByEmail e us = find (\<lambda>u. email u = toLowerCase e \<and> \<not> isDeleted u) us"

definition findUserById :: "objectId \<Rightarrow> user list \<Rightarrow> user option" where
  "findUserById i us = find (\<lambda>u. uid u = i) us"

definition isLocked :: "user \<Rightarrow> time \<Rightarrow> bool" where
  "isLocked u now = (case lockUntil u of None \<Rightarrow> False | Some t \<Rightarrow> t > now)"

definition incrementLoginAttempts :: "user \<Rightarrow> time \<Rightarrow> user list \<Rightarrow> user list" where
  "incrementLoginAttempts u now us =
     (if loginAttempts u + 1 \<ge> 5
      then updateUser (uid u)
             (\<lambda>d. d\<lparr>loginAttempts := loginAttempts u + 1,
                     lockUntil := Some (now + 2 * 60 * 60 * 1000)\<rparr>) us
      else updateUser (uid u) (\<lambda>d. d\<lparr>loginAttempts := loginAttempts u + 1\<rparr>) us)"

definition resetLoginAttempts :: "user \<Rightarrow> user list \<Rightarrow> user list" where
  "resetLoginAttempts u us =
     updateUser (uid u) (\<lambda>d. d\<lparr>loginAttempts := 0, lockUntil := None\<rparr>) us"

section \<open>The token model and the token service\<close>

definition findValidToken :: "string \<Rightarrow> tokenType \<Rightarrow> time \<Rightarrow> tokenStore \<Rightarrow> tokenDoc option" where
  "findValidToken tok ty now ts =
     (case ts tok of
        None \<Rightarrow> None
      | Some d \<Rightarrow> if tokType d = ty \<and> \<not> isRevoked d \<and> expiresAt d > now then Some d else None)"

definition revokeAllForUser :: "objectId \<Rightarrow> tokenType \<Rightarrow> tokenStore \<Rightarrow> tokenStore" where
  "revokeAllForUser i ty ts =
     (\<lambda>tok. case ts tok of
               None \<Rightarrow> None
             | Some d \<Rightarrow> if userId d = i \<and> tokType d = ty then Some (d\<lparr>isRevoked := True\<rparr>)
                         else Some d)"

text \<open>
  A token document as \<open>new Token(...)\<close> builds it: the expiry may be absent.
  \<open>save()\<close> validates the document first, and the schema requires the token string
  and \<open>expiresAt\<close>. Only then does the model's pre-save hook run, which would give a
  refresh token without an expiry seven days from now. The write is refused by the
  unique index when the token string is already stored.
\<close>

record tokenDraft =
  draftUser :: objectId
  draftType :: tokenType
  draftExpiresAt :: "time option"

definition validate_token :: "string \<Rightarrow> tokenDraft \<Rightarrow> bool" where
  "validate_token tok d = (tok \<noteq> [] \<and> draftExpiresAt d \<noteq> None)"

definition pre_save_token :: "time \<Rightarrow> tokenDraft \<Rightarrow> tokenDraft" where
  "pre_save_token now d =
     (if draftType d = Refresh \<and> draftExpiresAt d = None
      then d\<lparr>draftExpiresAt := Some (now + 7 * 24 * 60 * 60 * 1000)\<rparr> else d)"

definition save_token :: "string \<Rightarrow> tokenDraft \<Rightarrow> time \<Rightarrow> tokenStore \<Rightarrow> error + tokenStore" where
  "save_token tok d now ts =
     (if \<not> validate_token tok d then Inl (ValidationError ''Token validation failed'')
      else
        let d1 = pre_save_token now d in
        case draftExpiresAt d1 of
          None \<Rightarrow> Inl (ValidationError ''Token validation failed'')
        | Some e \<Rightarrow>
            (case ts tok of
               Some stored \<Rightarrow> Inl (DuplicateKey ''token'')
             | None \<Rightarrow>
                 Inr (ts(tok \<mapsto> \<lparr>userId = draftUser d1, tokType = draftType d1,
                                  expiresAt = e, isRevoked = False\<rparr>))))"

text \<open>
  \<open>storeRefreshToken\<close> builds the document from the user, the token string and the
  type \<open>refresh\<close>, with no expiry, saves it, and turns whatever the save throws into
  the internal error \<open>Failed to store refresh token\<close>.
\<close>

definition storeRefreshToken :: "objectId \<Rightarrow> string \<Rightarrow> time \<Rightarrow> tokenStore \<Rightarrow> error + tokenStore" where
  "storeRefreshToken i tok now ts =
     (case save_token tok \<lparr>draftUser = i, draftType = Refresh, draftExpiresAt = None\<rparr> now ts of
        Inl e \<Rightarrow> Inl (internalError ''Failed to store refresh token'')
      | Inr ts' \<Rightarrow> Inr ts')"

definition verifyRefreshToken :: "env \<Rightarrow> time \<Rightarrow> string \<Rightarrow> tokenStore \<Rightarrow> error + refreshPayload" where
  "verifyRefreshToken env now tok ts =
     (case verifyJWTRefreshToken env tok now of
        Inl TokenExpiredError \<Rightarrow> Inl (unauthorized ''Refresh token expired'')
      | Inl JsonWebTokenError \<Rightarrow> Inl (unauthorized ''Invalid refresh token'')
      | Inl NotBeforeError \<Rightarrow> Inl (JwtError NotBeforeError)
      | Inr decoded \<Rightarrow>
          (case findValidToken tok Refresh now ts of
             None \<Rightarrow> Inl (unauthorized ''Invalid refresh token'')
           | Some tokenDoc \<Rightarrow> Inr decoded))"

definition checkRefreshToken :: "string \<Rightarrow> time \<Rightarrow> tokenStore \<Rightarrow> bool" where
  "checkRefreshToken tok now ts = (findValidToken tok Refresh now ts \<noteq> None)"

text \<open>
  \<open>removeRefreshToken\<close> is one \<open>findOneAndUpdate\<close> on the token string and the type
  \<open>refresh\<close>; it returns the updated document, or \<open>null\<close> when none matches.
\<close>

definition removeRefreshToken :: "string \<Rightarrow> tokenStore \<Rightarrow> tokenDoc option \<times> tokenStore" where
  "removeRefreshToken tok ts =
     (case ts tok of
        None \<Rightarrow> (None, ts)
      | Some d \<Rightarrow>
          if tokType d = Refresh
          then (Some (d\<lparr>isRevoked := True\<rparr>), ts(tok \<mapsto> d\<lparr>isRevoked := True\<rparr>))
          else (None, ts))"

definition removeAllRefreshTokens :: "objectId \<Rightarrow> tokenStore \<Rightarrow> tokenStore" where
  "removeAllRefreshTokens i ts = revokeAllForUser i Refresh ts"

section \<open>The authentication service\<close>

record userView =
  uv_id :: objectId
  uv_email :: string
  uv_role :: objectId
  uv_isEmailVerified :: bool

record loginResponse =
  lr_user :: userView
  lr_accessToken :: string
  lr_refreshToken :: string
  lr_role :: string
  lr_permissions :: "string list"

record refreshResponse =
  rr_accessToken :: string
  rr_user :: userView
  rr_role :: string
  rr_permissions :: "string list"

definition toObject :: "user \<Rightarrow> userView" where
  "toObject u = \<lparr>uv_id = uid u, uv_email = email u, uv_role = urole u,
                 uv_isEmailVerified = isEmailVerified u\<rparr>"

text \<open>
  \<open>login\<close>. Every write made before a throw stays in the store, so the store is
  returned with the error as well as with the response.
\<close>

definition login :: "env \<Rightarrow> time \<Rightarrow> string \<Rightarrow> string \<Rightarrow> db \<Rightarrow> (error + loginResponse) \<times> db" where
  "login env now em pw s =
     (case findByEmail em (users s) of
        None \<Rightarrow> (Inl (invalidCredentials ''Invalid email or password''), s)
      | Some u \<Rightarrow>
          if isLocked u now
          then (Inl (unauthorized ''Account is temporarily locked. Please try again later.''), s)
          else if \<not> isActive u \<or> isDeleted u
          then (Inl (unauthorized ''Account is deactivated or deleted''), s)
          else if \<not> bcrypt_compare env pw (password u)
          then (Inl (invalidCredentials ''Invalid email or password''),
                s\<lparr>users := incrementLoginAttempts u now (users s)\<rparr>)
          else
            let s1 = s\<lparr>users := resetLoginAttempts u (users s)\<rparr>;
                s2 = s1\<lparr>users := updateUser (uid u) (\<lambda>d. d\<lparr>lastLogin := Some now\<rparr>) (users s1)\<rparr>
            in
            case findById (urole u) (roles s2) of
              None \<Rightarrow> (Inl (TypeError ''Cannot read properties of null (reading name)''), s2)
            | Some r \<Rightarrow>
                let accessToken = generateAccessToken env
                      \<lparr>ap_id = uid u, ap_email = email u, ap_role = name r,
                       ap_permissions = permissions r\<rparr> now;
                    refreshToken = generateRefreshToken env
                      \<lparr>rp_id = uid u, rp_email = email u, rp_role = name r\<rparr> now
                in
                case storeRefreshToken (uid u) refreshToken now (tokens s2) of
                  Inl e \<Rightarrow> (Inl e, s2)
                | Inr ts \<Rightarrow>
                    (Inr \<lparr>lr_user = toObject u, lr_accessToken = accessToken,
                          lr_refreshToken = refreshToken, lr_role = name r,
                          lr_permissions = permissions r\<rparr>,
                     s2\<lparr>tokens := ts\<rparr>))"

definition refreshToken :: "env \<Rightarrow> time \<Rightarrow> string \<Rightarrow> db \<Rightarrow> (error + refreshResponse) \<times> db" where
  "refreshToken env now tok s =
     (case verifyRefreshToken env now tok (tokens s) of
        Inl e \<Rightarrow> (Inl e, s)
      | Inr decoded \<Rightarrow>
          if \<not> checkRefreshToken tok now (tokens s)
          then (Inl (unauthorized ''Invalid refresh token''), s)
          else
            (case findUserById (rp_id decoded) (users s) of
               None \<Rightarrow> (Inl (unauthorized ''User not found or inactive''), s)
             | Some u \<Rightarrow>
                 if \<not> isActive u \<or> isDeleted u
                 then (Inl (unauthorized ''User not found or inactive''), s)
                 else
                   (case findById (urole u) (roles s) of
                      None \<Rightarrow> (Inl (TypeError ''Cannot read properties of null (reading name)''), s)
                    | Some r \<Rightarrow>
                        (Inr \<lparr>rr_accessToken = generateAccessToken env
                                 \<lparr>ap_id = uid u, ap_email = email u, ap_role = name r,
                                  ap_permissions = permissions r\<rparr> now,
                              rr_user = toObject u, rr_role = name r,
                              rr_permissions = permissions r\<rparr>, s))))"

definition logout :: "string \<Rightarrow> db \<Rightarrow> (error + string) \<times> db" where
  "logout tok s =
     (Inr ''Logged out successfully'', s\<lparr>tokens := snd (removeRefreshToken tok (tokens s))\<rparr>)"


text \<open>
  \<open>forgotPassword\<close> and \<open>resendVerification\<close>; \<open>resetToken\<close> and
  \<open>verificationToken\<close> are the hexadecimal strings drawn from
  \<open>crypto.randomBytes(32)\<close>. Both mails go through \<open>sendEmail\<close> after the user is
  saved, and \<open>sendEmail\<close> throws \<open>Failed to send email\<close> when the transport fails.
\<close>

definition forgotPassword :: "env \<Rightarrow> time \<Rightarrow> string \<Rightarrow> string \<Rightarrow> db \<Rightarrow> (error + string) \<times> db" where
  "forgotPassword env now resetToken em s =
     (case findByEmail em (users s) of
        None \<Rightarrow>
          (Inr ''If an account with that email exists, a password reset email has been sent'', s)
      | Some u \<Rightarrow>
          let s1 = s\<lparr>users := updateUser (uid u)
                     (\<lambda>d. d\<lparr>passwordResetToken := Some resetToken,
                             passwordResetExpires := Some (now + 1 * 60 * 60 * 1000)\<rparr>) (users s)\<rparr>
          in if sendMail env (email u) then (Inr ''Password reset email sent'', s1)
             else (Inl (PlainError ''Failed to send email''), s1))"

definition resendVerification :: "env \<Rightarrow> time \<Rightarrow> string \<Rightarrow> string \<Rightarrow> db \<Rightarrow> (error + string) \<times> db" where
  "resendVerification env now verificationToken em s =
     (case findByEmail em (users s) of
        None \<Rightarrow> (Inl (notFound ''User not found''), s)
      | Some u \<Rightarrow>
          if isEmailVerified u then (Inl (badRequest ''Email is already verified''), s)
          else
            let s1 = s\<lparr>users := updateUser (uid u)
                       (\<lambda>d. d\<lparr>emailVerificationToken := Some verificationToken,
                               emailVerificationExpires := Some (now + 24 * 60 * 60 * 1000)\<rparr>)
                       (users s)\<rparr>
            in if sendMail env (email u) then (Inr ''Verification email sent'', s1)
               else (Inl (PlainError ''Failed to send email''), s1))"

text \<open>
  \<open>resetPassword\<close> and \<open>verifyEmail\<close>: a \<open>findOne\<close> on the token field and its
  expiry, then a \<open>save\<close> of the document found (and, for a reset, the revocation of
  the user's refresh tokens).
\<close>

definition findByResetToken :: "string \<Rightarrow> time \<Rightarrow> user list \<Rightarrow> user option" where
  "findByResetToken t now us =
     find (\<lambda>u. passwordResetToken u = Some t
               \<and> (case passwordResetExpires u of None \<Rightarrow> False | Some e \<Rightarrow> e > now)) us"

definition findByVerificationToken :: "string \<Rightarrow> time \<Rightarrow> user list \<Rightarrow> user option" where
  "findByVerificationToken t now us =
     find (\<lambda>u. emailVerificationToken u = Some t
               \<and> (case emailVerificationExpires u of None \<Rightarrow> False | Some e \<Rightarrow> e > now)) us"

definition saveNewPassword :: "env \<Rightarrow> user \<Rightarrow> string \<Rightarrow> user list \<Rightarrow> user list" where
  "saveNewPassword env u newPassword us =
     updateUser (uid u)
       (\<lambda>d. d\<lparr>password := hashOnSave env newPassword,
               passwordResetToken := None, passwordResetExpires := None\<rparr>) us"

definition resetPassword :: "env \<Rightarrow> time \<Rightarrow> string \<Rightarrow> string \<Rightarrow> db \<Rightarrow> (error + string) \<times> db" where
  "resetPassword env now t newPassword s =
     (case findByResetToken t now (users s) of
        None \<Rightarrow> (Inl (badRequest ''Invalid or expired reset token''), s)
      | Some u \<Rightarrow>
          let s1 = s\<lparr>users := saveNewPassword env u newPassword (users s)\<rparr>;
              s2 = s1\<lparr>tokens := removeAllRefreshTokens (uid u) (tokens s1)\<rparr>
          in (Inr ''Password reset successfully'', s2))"

definition verifyEmail :: "time \<Rightarrow> string \<Rightarrow> db \<Rightarrow> (error + string) \<times> db" where
  "verifyEmail now t s =
     (case findByVerificationToken t now (users s) of
        None \<Rightarrow> (Inl (badRequest ''Invalid or expired verification token''), s)
      | Some u \<Rightarrow>
          (Inr ''Email verified successfully'',
           s\<lparr>users := updateUser (uid u)
                (\<lambda>d. d\<lparr>isEmailVerified := True, emailVerificationToken := None,
                        emailVerificationExpires := None\<rparr>) (users s)\<rparr>))"

section \<open>Two reset calls in flight\<close>

text \<open>
  \<open>resetPassword\<close> gives up control at each \<open>await\<close>: after the \<open>findOne\<close>, after
  the \<open>save\<close> and after the revocation. A call in flight is at one of these points,
  and \<open>reset_step\<close> runs it to the next one.
\<close>

datatype resetCall =
    Called string string
  | Found user string
  | Saved user
  | Returned "error + string"

fun reset_step :: "env \<Rightarrow> time \<Rightarrow> resetCall \<Rightarrow> db \<Rightarrow> resetCall \<times> db" where
  "reset_step env now (Called t newPassword) s =
     (case findByResetToken t now (users s) of
        None \<Rightarrow> (Returned (Inl (badRequest ''Invalid or expired reset token'')), s)
      | Some u \<Rightarrow> (Found u newPassword, s))"
| "reset_step env now (Found u newPassword) s =
     (Saved u, s\<lparr>users := saveNewPassword env u newPassword (users s)\<rparr>)"
| "reset_step env now (Saved u) s =
     (Returned (Inr ''Password reset successfully''),
      s\<lparr>tokens := removeAllRefreshTokens (uid u) (tokens s)\<rparr>)"
| "reset_step env now (Returned r) s = (Returned r, s)"

text \<open>
  Two calls and a schedule: \<open>True\<close> lets the first call take its next step, \<open>False\<close>
  the second.
\<close>

fun run_two :: "env \<Rightarrow> time \<Rightarrow> bool list \<Rightarrow> resetCall \<times> resetCall \<times> db \<Rightarrow> resetCall \<times> resetCall \<times> db" where
  "run_two env now [] c = c"
| "run_two env now (first # sched) (a, b, s) =
     (if first
      then (case reset_step env now a s of (a', s') \<Rightarrow> run_two env now sched (a', b, s'))
      else (case reset_step env now b s of (b', s') \<Rightarrow> run_two env now sched (a, b', s')))"

section \<open>Sequences of requests\<close>




definition revoked :: "string \<Rightarrow> db \<Rightarrow> bool" where
  "revoked tok s = (case tokens s tok of None \<Rightarrow> False | Some d \<Rightarrow> isRevoked d)"

section \<open>Sample data\<close>

text \<open>
  Roles: an inactive role holding \<open>user:read\<close>, an active administrator, and the
  seeded default role \<open>user\<close>.
\<close>

definition inactive_reader :: role where
  "inactive_reader = \<lparr>rid = 7, name = ''reader'', description = None,
     permissions = [''user:read''], isDefault = False, isSystem = False,
     roleActive = False, roleDeleted = False\<rparr>"

definition admin_role :: role where
  "admin_role = \<lparr>rid = 1, name = ''admin'', description = Some ''Administrator with full access'',
     permissions = [''admin:all'', ''user:read''], isDefault = False, isSystem = True,
     roleActive = True, roleDeleted = False\<rparr>"

definition user_role :: role where
  "user_role = \<lparr>rid = 2, name = ''user'', description = Some ''Regular user with basic permissions'',
     permissions = [''auth:login'', ''profile:read''], isDefault = True, isSystem = True,
     roleActive = True, roleDeleted = False\<rparr>"

definition editor_data :: roleData where
  "editor_data = \<lparr>rd_name = ''editor'', rd_description = Some ''Edits content'',
     rd_permissions = [''content:read'', ''content:update''], rd_isDefault = Some True,
     rd_isSystem = None, rd_isActive = None\<rparr>"

definition toggle_active :: updateData where
  "toggle_active = \<lparr>up_name = None, up_description = None, up_permissions = None,
     up_isDefault = None, up_isSystem = None, up_isActive = Some False, up_isDeleted = None\<rparr>"

text \<open>
  The role that \<open>createRole\<close> makes of \<open>editor_data\<close> with the new id 8, and the
  roles of a list that are default, active and not deleted.
\<close>

definition editor_role :: role where
  "editor_role = \<lparr>rid = 8, name = ''editor'', description = Some ''Edits content'',
     permissions = [''content:read'', ''content:update''], isDefault = True, isSystem = False,
     roleActive = True, roleDeleted = False\<rparr>"

definition active_defaults :: "role list \<Rightarrow> role list" where
  "active_defaults rs = filter (\<lambda>r. isDefault r \<and> roleActive r \<and> \<not> roleDeleted r) rs"

text \<open>
  Users: \<open>ann\<close>, who holds the reset token \<open>r1\<close> and the verification token
  \<open>v1\<close>, and \<open>bob\<close>, who is locked until time 9000000.
\<close>

definition ann :: user where
  "ann = \<lparr>uid = 10, email = ''ann@x.com'', password = ''hashed:P1'', urole = 2,
     isEmailVerified = False,
     emailVerificationToken = Some ''v1'', emailVerificationExpires = Some 90000000,
     passwordResetToken = Some ''r1'', passwordResetExpires = Some 3600000,
     loginAttempts = 0, lockUntil = None, isActive = True, isDeleted = False,
     lastLogin = None\<rparr>"

definition bob :: user where
  "bob = \<lparr>uid = 11, email = ''bob@x.com'', password = ''hashed:P2'', urole = 2,
     isEmailVerified = True,
     emailVerificationToken = None, emailVerificationExpires = None,
     passwordResetToken = None, passwordResetExpires = None,
     loginAttempts = 5, lockUntil = Some 9000000, isActive = True, isDeleted = False,
     lastLogin = None\<rparr>"

definition ann_refresh :: tokenDoc where
  "ann_refresh = \<lparr>userId = 10, tokType = Refresh, expiresAt = 604800000, isRevoked = False\<rparr>"

definition env0 :: env where
  "env0 = \<lparr>bcrypt_compare = (\<lambda>pw h. h = ''hashed:'' @ pw),
     hashOnSave = (\<lambda>pw. ''hashed:'' @ pw),
     generateAccessToken = (\<lambda>p now. ''access.'' @ ap_email p),
     generateRefreshToken = (\<lambda>p now. ''refresh.'' @ rp_email p),
     verifyJWTRefreshToken =
       (\<lambda>tok now. if tok = ''old.ann@x.com'' \<or> tok = ''refresh.ann@x.com''
                   then Inr \<lparr>rp_id = 10, rp_email = ''ann@x.com'', rp_role = ''user''\<rparr>
                   else Inl JsonWebTokenError),
     sendMail = (\<lambda>recipient. True)\<rparr>"

definition db0 :: db where
  "db0 = \<lparr>users = [ann, bob], roles = [admin_role, user_role],
     tokens = [''old.ann@x.com'' \<mapsto> ann_refresh]\<rparr>"

text \<open>
  Four failed logins of \<open>ann\<close> at time 1000, and a fifth.
\<close>

definition wrong_login :: "db \<Rightarrow> db" where
  "wrong_login s = snd (login env0 1000 ''ann@x.com'' ''wrong'' s)"

definition db4 :: db where
  "db4 = wrong_login (wrong_login (wrong_login (wrong_login db0)))"

definition db5 :: db where
  "db5 = wrong_login db4"

section \<open>Lookups after a write\<close>

lemma find_updateUser:
  assumes "\<And>d. P (f d) = P d"
  shows "find P (updateUser i f us) = map_option (\<lambda>d. if uid d = i then f d else d) (find P us)"
  using assms by (induction us) (auto simp: updateUser_def)

lemma find_updateUser_None:
  assumes "\<And>d. \<not> P (f d)" and "\<forall>v \<in> set us. uid v \<noteq> i \<longrightarrow> \<not> P v"
  shows "find P (updateUser i f us) = None"
  using assms by (auto simp: find_None_iff updateUser_def)

lemma find_Some_holds: "find P xs = Some x \<Longrightarrow> P x \<and> x \<in> set xs"
  by (induction xs) (auto split: if_splits)

lemma find_updateUser_other:
  assumes "find P (updateUser i f us) = Some v" and "\<And>d. \<not> P (f d)"
  shows "uid v \<noteq> i"
proof -
  from assms(1) have "P v" and "v \<in> set (updateUser i f us)"
    by (auto dest: find_Some_holds)
  then obtain d where "d \<in> set us" and v: "v = (if uid d = i then f d else d)"
    by (auto simp: updateUser_def)
  with \<open>P v\<close> assms(2) show ?thesis
    by (auto split: if_splits)
qed

lemma findByResetToken_cleared:
  assumes "\<And>d. passwordResetToken (f d) \<noteq> Some t"
    and "\<forall>v \<in> set us. uid v \<noteq> i \<longrightarrow> passwordResetToken v \<noteq> Some t"
  shows "findByResetToken t later (updateUser i f us) = None"
  unfolding findByResetToken_def using assms by (intro find_updateUser_None) auto

lemma findByVerificationToken_cleared:
  assumes "\<And>d. emailVerificationToken (f d) \<noteq> Some t"
    and "\<forall>v \<in> set us. uid v \<noteq> i \<longrightarrow> emailVerificationToken v \<noteq> Some t"
  shows "findByVerificationToken t later (updateUser i f us) = None"
  unfolding findByVerificationToken_def using assms by (intro find_updateUser_None) auto

lemma findByEmail_updateUser:
  assumes "findByEmail em us = Some u"
    and "\<And>d. email (f d) = email d" and "\<And>d. isDeleted (f d) = isDeleted d"
  shows "findByEmail em (updateUser (uid u) f us) = Some (f u)"
proof -
  have "find (\<lambda>u. email u = toLowerCase em \<and> \<not> isDeleted u) (updateUser (uid u) f us)
      = map_option (\<lambda>d. if uid d = uid u then f d else d)
          (find (\<lambda>u. email u = toLowerCase em \<and> \<not> isDeleted u) us)"
    by (rule find_updateUser) (simp add: assms(2,3))
  with assms(1) show ?thesis by (simp add: findByEmail_def)
qed

lemma storeRefreshToken_throws:
  "storeRefreshToken i tok now ts = Inl (internalError ''Failed to store refresh token'')"
  by (simp add: storeRefreshToken_def save_token_def validate_token_def)

lemma updateUser_twice:
  assumes "\<And>d. uid (f d) = uid d"
  shows "updateUser i g (updateUser i f us) = updateUser i (\<lambda>d. g (f d)) us"
  using assms by (simp add: updateUser_def)

lemma findByEmail_not_deleted: "findByEmail em us = Some u \<Longrightarrow> \<not> isDeleted u"
  unfolding findByEmail_def by (drule find_Some_holds) simp

section \<open>Properties of the permission checks\<close>

text \<open>
  C9, as stated, fails on the Mongoose model: an inactive role that holds
  \<open>user:read\<close> is refused \<open>user:read\<close>.
\<close>

theorem C9_inactive_role_counterexample:
  "\<not> (hasPermission inactive_reader ''user:read'' \<longleftrightarrow>
       (''user:read'' \<in> set (permissions inactive_reader)
        \<or> ''admin:all'' \<in> set (permissions inactive_reader)))"
  by (simp add: hasPermission_def inactive_reader_def)

text \<open>
  C9, amended. On the Sequelize model \<open>hasPermission p\<close> holds exactly when \<open>p\<close> or
  \<open>admin:all\<close> is in the role's permission list, and \<open>hasAnyPermission\<close> and
  \<open>hasAllPermissions\<close> are its \<open>some\<close> and \<open>every\<close> liftings. On the Mongoose
  model each of the three checks also requires the role to be active and not deleted;
  \<open>hasAnyPermission\<close> and \<open>hasAllPermissions\<close> hold for such a role exactly when it
  has \<open>admin:all\<close> or some, respectively every, permission asked for, and for a
  non-empty list of permissions they are the \<open>some\<close> and \<open>every\<close> liftings of
  \<open>hasPermission\<close>.
\<close>

theorem C9_permission_checks:
  "(pg_hasPermission r p \<longleftrightarrow>
      p \<in> set (permissions r) \<or> ''admin:all'' \<in> set (permissions r))
   \<and> (pg_hasAnyPermission r ps \<longleftrightarrow> (\<exists>q \<in> set ps. pg_hasPermission r q))
   \<and> (pg_hasAllPermissions r ps \<longleftrightarrow> (\<forall>q \<in> set ps. pg_hasPermission r q))
   \<and> (hasPermission r p \<longleftrightarrow>
        roleActive r \<and> \<not> roleDeleted r
        \<and> (p \<in> set (permissions r) \<or> ''admin:all'' \<in> set (permissions r)))
   \<and> (hasAnyPermission r ps \<longleftrightarrow>
        roleActive r \<and> \<not> roleDeleted r
        \<and> (''admin:all'' \<in> set (permissions r) \<or> (\<exists>q \<in> set ps. q \<in> set (permissions r))))
   \<and> (hasAllPermissions r ps \<longleftrightarrow>
        roleActive r \<and> \<not> roleDeleted r
        \<and> (''admin:all'' \<in> set (permissions r) \<or> (\<forall>q \<in> set ps. q \<in> set (permissions r))))
   \<and> (ps \<noteq> [] \<longrightarrow>
        (hasAnyPermission r ps \<longleftrightarrow> (\<exists>q \<in> set ps. hasPermission r q))
        \<and> (hasAllPermissions r ps \<longleftrightarrow> (\<forall>q \<in> set ps. hasPermission r q)))"
proof -
  have pg: "pg_hasPermission r p \<longleftrightarrow>
      p \<in> set (permissions r) \<or> ''admin:all'' \<in> set (permissions r)"
    by (simp add: pg_hasPermission_def)
  have pg_any: "pg_hasAnyPermission r ps \<longleftrightarrow> (\<exists>q \<in> set ps. pg_hasPermission r q)"
    by (simp add: pg_hasAnyPermission_def list_ex_iff)
  have pg_all: "pg_hasAllPermissions r ps \<longleftrightarrow> (\<forall>q \<in> set ps. pg_hasPermission r q)"
    by (simp add: pg_hasAllPermissions_def list_all_iff)
  have one: "hasPermission r q \<longleftrightarrow>
        roleActive r \<and> \<not> roleDeleted r
        \<and> (q \<in> set (permissions r) \<or> ''admin:all'' \<in> set (permissions r))" for q
    by (auto simp: hasPermission_def)
  have any: "hasAnyPermission r ps \<longleftrightarrow>
        roleActive r \<and> \<not> roleDeleted r
        \<and> (''admin:all'' \<in> set (permissions r) \<or> (\<exists>q \<in> set ps. q \<in> set (permissions r)))"
    by (auto simp: hasAnyPermission_def list_ex_iff)
  have all: "hasAllPermissions r ps \<longleftrightarrow>
        roleActive r \<and> \<not> roleDeleted r
        \<and> (''admin:all'' \<in> set (permissions r) \<or> (\<forall>q \<in> set ps. q \<in> set (permissions r)))"
    by (auto simp: hasAllPermissions_def list_all_iff)
  have lift: "(hasAnyPermission r ps \<longleftrightarrow> (\<exists>q \<in> set ps. hasPermission r q))
        \<and> (hasAllPermissions r ps \<longleftrightarrow> (\<forall>q \<in> set ps. hasPermission r q))" if "ps \<noteq> []"
  proof -
    from that obtain q0 where q0: "q0 \<in> set ps" by (cases ps) auto
    show ?thesis unfolding any all one using q0 by blast
  qed
  from pg pg_any pg_all one [of p] any all lift show ?thesis by blast
qed

theorem C9_permission_checks_witness:
  "[''user:read'', ''role:read''] \<noteq> []
   \<and> (hasAllPermissions admin_role [''user:read'', ''role:read''] \<longleftrightarrow>
        (\<forall>q \<in> set [''user:read'', ''role:read'']. hasPermission admin_role q))
   \<and> hasAllPermissions admin_role [''user:read'', ''role:read'']
   \<and> (hasAnyPermission inactive_reader [''user:read'', ''role:read''] \<longleftrightarrow>
        (\<exists>q \<in> set [''user:read'', ''role:read'']. hasPermission inactive_reader q))
   \<and> \<not> hasAnyPermission inactive_reader [''user:read'', ''role:read'']"
proof -
  have ne: "[''user:read'', ''role:read''] \<noteq> []"
    by simp
  have lift_all: "hasAllPermissions admin_role [''user:read'', ''role:read''] \<longleftrightarrow>
      (\<forall>q \<in> set [''user:read'', ''role:read'']. hasPermission admin_role q)"
    using C9_permission_checks [of admin_role "''role:read''" "[''user:read'', ''role:read'']"] ne
    by blast
  have lift_any: "hasAnyPermission inactive_reader [''user:read'', ''role:read''] \<longleftrightarrow>
      (\<exists>q \<in> set [''user:read'', ''role:read'']. hasPermission inactive_reader q)"
    using C9_permission_checks [of inactive_reader "''role:read''" "[''user:read'', ''role:read'']"] ne
    by blast
  have yes: "hasAllPermissions admin_role [''user:read'', ''role:read'']"
    by (simp add: hasAllPermissions_def admin_role_def)
  have no: "\<not> hasAnyPermission inactive_reader [''user:read'', ''role:read'']"
    by (simp add: hasAnyPermission_def inactive_reader_def)
  from ne lift_all lift_any yes no show ?thesis
    by blast
qed

section \<open>Refreshing and revoking\<close>

text \<open>
  C5. When the JWT verifies but the store has no refresh record for the token string
  that is neither revoked nor expired, \<open>refreshToken\<close> fails with the 401 error
  \<open>Invalid refresh token\<close>. The call never changes the store. When it succeeds, its
  access token is the one signed for the user and the user's role at that moment, its
  response has no refresh token, and the record presented is still in the store,
  unrevoked and unexpired.
\<close>

theorem C5_refresh_not_rotated:
  "((\<exists>decoded. verifyJWTRefreshToken env tok now = Inr decoded)
      \<and> (\<forall>d. tokens s tok = Some d \<longrightarrow> tokType d \<noteq> Refresh \<or> isRevoked d \<or> expiresAt d \<le> now)
      \<longrightarrow> fst (refreshToken env now tok s) = Inl (unauthorized ''Invalid refresh token''))
   \<and> snd (refreshToken env now tok s) = s
   \<and> (fst (refreshToken env now tok s) = Inr resp \<longrightarrow>
        (\<exists>decoded u r.
           verifyJWTRefreshToken env tok now = Inr decoded
           \<and> findUserById (rp_id decoded) (users s) = Some u
           \<and> findById (urole u) (roles s) = Some r
           \<and> rr_accessToken resp =
               generateAccessToken env
                 \<lparr>ap_id = uid u, ap_email = email u, ap_role = name r,
                  ap_permissions = permissions r\<rparr> now)
        \<and> (\<exists>d. tokens (snd (refreshToken env now tok s)) tok = Some d
               \<and> tokens s tok = Some d
               \<and> tokType d = Refresh \<and> \<not> isRevoked d \<and> expiresAt d > now))"
proof -
  have a: "fst (refreshToken env now tok s) = Inl (unauthorized ''Invalid refresh token'')"
    if "\<exists>decoded. verifyJWTRefreshToken env tok now = Inr decoded"
      and "\<forall>d. tokens s tok = Some d \<longrightarrow> tokType d \<noteq> Refresh \<or> isRevoked d \<or> expiresAt d \<le> now"
  proof -
    from that(2) have "findValidToken tok Refresh now (tokens s) = None"
      by (auto simp: findValidToken_def split: option.splits)
    with that(1) show ?thesis
      by (auto simp: refreshToken_def verifyRefreshToken_def)
  qed
  have b: "snd (refreshToken env now tok s) = s"
    by (auto simp: refreshToken_def split: sum.splits option.splits)
  have c: "(\<exists>decoded u r.
           verifyJWTRefreshToken env tok now = Inr decoded
           \<and> findUserById (rp_id decoded) (users s) = Some u
           \<and> findById (urole u) (roles s) = Some r
           \<and> rr_accessToken resp =
               generateAccessToken env
                 \<lparr>ap_id = uid u, ap_email = email u, ap_role = name r,
                  ap_permissions = permissions r\<rparr> now)
        \<and> (\<exists>d. tokens s tok = Some d
               \<and> tokType d = Refresh \<and> \<not> isRevoked d \<and> expiresAt d > now)"
    if "fst (refreshToken env now tok s) = Inr resp"
    using that
    by (auto simp: refreshToken_def verifyRefreshToken_def checkRefreshToken_def
        findValidToken_def
        split: sum.splits option.splits if_splits jwt_error.splits)
  from a b c show ?thesis by (simp add: b)
qed

theorem C5_refresh_not_rotated_witness:
  "fst (refreshToken env0 604800000 ''old.ann@x.com'' db0)
     = Inl (unauthorized ''Invalid refresh token'')
   \<and> fst (refreshToken env0 1000 ''old.ann@x.com'' db0)
     = Inr \<lparr>rr_accessToken = ''access.ann@x.com'', rr_user = toObject ann,
            rr_role = ''user'', rr_permissions = [''auth:login'', ''profile:read'']\<rparr>
   \<and> snd (refreshToken env0 1000 ''old.ann@x.com'' db0) = db0
   \<and> tokens (snd (refreshToken env0 1000 ''old.ann@x.com'' db0)) ''old.ann@x.com''
     = Some ann_refresh"
proof -
  have verified: "\<exists>decoded. verifyJWTRefreshToken env0 ''old.ann@x.com'' 604800000 = Inr decoded"
    by (simp add: env0_def)
  have expired: "\<forall>d. tokens db0 ''old.ann@x.com'' = Some d \<longrightarrow>
      tokType d \<noteq> Refresh \<or> isRevoked d \<or> expiresAt d \<le> 604800000"
    by (simp add: db0_def ann_refresh_def)
  have refused: "fst (refreshToken env0 604800000 ''old.ann@x.com'' db0)
     = Inl (unauthorized ''Invalid refresh token'')"
    using C5_refresh_not_rotated [of env0 "''old.ann@x.com''" 604800000 db0] verified expired
    by blast
  have issued: "fst (refreshToken env0 1000 ''old.ann@x.com'' db0)
     = Inr \<lparr>rr_accessToken = ''access.ann@x.com'', rr_user = toObject ann,
            rr_role = ''user'', rr_permissions = [''auth:login'', ''profile:read'']\<rparr>"
    by (simp add: refreshToken_def verifyRefreshToken_def checkRefreshToken_def
      findValidToken_def findUserById_def findById_def db0_def env0_def ann_def bob_def
      ann_refresh_def admin_role_def user_role_def toObject_def)
  have kept: "snd (refreshToken env0 1000 ''old.ann@x.com'' db0) = db0"
    using C5_refresh_not_rotated [of env0 "''old.ann@x.com''" 1000 db0] by blast
  have still: "tokens (snd (refreshToken env0 1000 ''old.ann@x.com'' db0)) ''old.ann@x.com''
     = Some ann_refresh"
    unfolding kept by (simp add: db0_def)
  from refused issued kept still show ?thesis by blast
qed

text \<open>
  C8. \<open>logout\<close> always returns its message. Calling it again with the same token
  gives the same result and the same store as the first call, and a call with a token
  that has no record, a record of another type, or a record already revoked leaves the
  store as it is.
\<close>

theorem C8_logout_idempotent:
  "fst (logout tok s) = Inr ''Logged out successfully''
   \<and> logout tok (snd (logout tok s)) = logout tok s
   \<and> (tokens s tok = None \<longrightarrow> snd (logout tok s) = s)
   \<and> (tokens s tok = Some d \<and> (tokType d \<noteq> Refresh \<or> isRevoked d) \<longrightarrow> snd (logout tok s) = s)"
proof -
  have a: "fst (logout tok s) = Inr ''Logged out successfully''"
    by (simp add: logout_def)
  have b: "logout tok (snd (logout tok s)) = logout tok s"
    by (cases "tokens s tok") (simp_all add: logout_def removeRefreshToken_def)
  have c: "snd (logout tok s) = s" if "tokens s tok = None"
    using that by (simp add: logout_def removeRefreshToken_def)
  have d: "snd (logout tok s) = s"
    if "tokens s tok = Some d" and "tokType d \<noteq> Refresh \<or> isRevoked d"
  proof -
    from that(2) have "tokType d \<noteq> Refresh \<or> d\<lparr>isRevoked := True\<rparr> = d" by auto
    with that(1) show ?thesis
      by (auto simp: logout_def removeRefreshToken_def fun_upd_idem)
  qed
  from a b c d show ?thesis by blast
qed

theorem C8_logout_idempotent_witness:
  "tokens db0 ''unknown'' = None
   \<and> snd (logout ''unknown'' db0) = db0
   \<and> fst (logout ''unknown'' db0) = Inr ''Logged out successfully''
   \<and> tokens (snd (logout ''old.ann@x.com'' db0)) ''old.ann@x.com''
       = Some (ann_refresh\<lparr>isRevoked := True\<rparr>)
   \<and> isRevoked (ann_refresh\<lparr>isRevoked := True\<rparr>)
   \<and> snd (logout ''old.ann@x.com'' (snd (logout ''old.ann@x.com'' db0)))
       = snd (logout ''old.ann@x.com'' db0)"
proof -
  have none: "tokens db0 ''unknown'' = None"
    by (simp add: db0_def)
  have same: "snd (logout ''unknown'' db0) = db0"
    using C8_logout_idempotent [of "''unknown''" db0] none by blast
  have ok: "fst (logout ''unknown'' db0) = Inr ''Logged out successfully''"
    using C8_logout_idempotent [of "''unknown''" db0] by blast
  have once: "tokens (snd (logout ''old.ann@x.com'' db0)) ''old.ann@x.com''
       = Some (ann_refresh\<lparr>isRevoked := True\<rparr>)"
    by (simp add: logout_def removeRefreshToken_def db0_def ann_refresh_def)
  have revoked: "isRevoked (ann_refresh\<lparr>isRevoked := True\<rparr>)"
    by simp
  have twice: "snd (logout ''old.ann@x.com'' (snd (logout ''old.ann@x.com'' db0)))
       = snd (logout ''old.ann@x.com'' db0)"
    using C8_logout_idempotent
      [of "''old.ann@x.com''" "snd (logout ''old.ann@x.com'' db0)" "ann_refresh\<lparr>isRevoked := True\<rparr>"]
      once revoked by blast
  from none same ok once revoked twice show ?thesis by blast
qed

section \<open>Password reset and the refresh tokens\<close>







section \<open>Reset and verification tokens\<close>

text \<open>
  C10. The reset token and the verification token are single fields of the user
  document. After \<open>forgotPassword\<close> the user found by the email holds the new reset
  token and its expiry of one hour. A reset token other than the new one no longer
  finds this user, and when no other user holds it either \<open>resetPassword\<close> refuses
  it. \<open>resendVerification\<close> does the same to the verification token of a user whose
  email is not yet verified, and \<open>verifyEmail\<close> then refuses the earlier token.
\<close>

theorem C10_one_token_of_each_kind:
  assumes found: "findByEmail em (users s) = Some u"
  shows "findByEmail em (users (snd (forgotPassword env now t2 em s)))
      = Some (u\<lparr>passwordResetToken := Some t2,
                passwordResetExpires := Some (now + 1 * 60 * 60 * 1000)\<rparr>)
    \<and> (t1 \<noteq> t2 \<and> findByResetToken t1 later (users (snd (forgotPassword env now t2 em s))) = Some v
        \<longrightarrow> uid v \<noteq> uid u)
    \<and> (t1 \<noteq> t2 \<and> (\<forall>v \<in> set (users s). uid v \<noteq> uid u \<longrightarrow> passwordResetToken v \<noteq> Some t1)
        \<longrightarrow> fst (resetPassword env later t1 newPassword (snd (forgotPassword env now t2 em s)))
            = Inl (badRequest ''Invalid or expired reset token''))
    \<and> (\<not> isEmailVerified u \<longrightarrow>
         findByEmail em (users (snd (resendVerification env now t2 em s)))
           = Some (u\<lparr>emailVerificationToken := Some t2,
                     emailVerificationExpires := Some (now + 24 * 60 * 60 * 1000)\<rparr>)
         \<and> (t1 \<noteq> t2
              \<and> findByVerificationToken t1 later (users (snd (resendVerification env now t2 em s))) = Some v
            \<longrightarrow> uid v \<noteq> uid u)
         \<and> (t1 \<noteq> t2
              \<and> (\<forall>v \<in> set (users s). uid v \<noteq> uid u \<longrightarrow> emailVerificationToken v \<noteq> Some t1)
            \<longrightarrow> fst (verifyEmail later t1 (snd (resendVerification env now t2 em s)))
                = Inl (badRequest ''Invalid or expired verification token'')))"
proof -
  let ?f = "\<lambda>d. d\<lparr>passwordResetToken := Some t2,
                    passwordResetExpires := Some (now + 1 * 60 * 60 * 1000)\<rparr>"
  let ?g = "\<lambda>d. d\<lparr>emailVerificationToken := Some t2,
                    emailVerificationExpires := Some (now + 24 * 60 * 60 * 1000)\<rparr>"
  have users_f: "users (snd (forgotPassword env now t2 em s)) = updateUser (uid u) ?f (users s)"
    using found by (simp add: forgotPassword_def Let_def)
  have stored_f: "findByEmail em (users (snd (forgotPassword env now t2 em s))) = Some (?f u)"
    unfolding users_f using found by (intro findByEmail_updateUser) simp_all
  have other_f: "uid v \<noteq> uid u"
    if "t1 \<noteq> t2"
      and "findByResetToken t1 later (users (snd (forgotPassword env now t2 em s))) = Some v"
    using that(2) unfolding users_f findByResetToken_def
    by (rule find_updateUser_other) (use that(1) in auto)
  have old_f: "fst (resetPassword env later t1 newPassword (snd (forgotPassword env now t2 em s)))
            = Inl (badRequest ''Invalid or expired reset token'')"
    if "t1 \<noteq> t2"
      and "\<forall>v \<in> set (users s). uid v \<noteq> uid u \<longrightarrow> passwordResetToken v \<noteq> Some t1"
  proof -
    have "findByResetToken t1 later (updateUser (uid u) ?f (users s)) = None"
      using that by (intro findByResetToken_cleared) auto
    then show ?thesis
      by (simp add: resetPassword_def users_f)
  qed
  have users_g: "users (snd (resendVerification env now t2 em s)) = updateUser (uid u) ?g (users s)"
    if "\<not> isEmailVerified u"
    using found that by (simp add: resendVerification_def Let_def)
  have stored_g: "findByEmail em (users (snd (resendVerification env now t2 em s))) = Some (?g u)"
    if "\<not> isEmailVerified u"
    unfolding users_g [OF that] using found by (intro findByEmail_updateUser) simp_all
  have other_g: "uid v \<noteq> uid u"
    if "\<not> isEmailVerified u" and "t1 \<noteq> t2"
      and "findByVerificationToken t1 later (users (snd (resendVerification env now t2 em s))) = Some v"
    using that(3) unfolding users_g [OF that(1)] findByVerificationToken_def
    by (rule find_updateUser_other) (use that(2) in auto)
  have old_g: "fst (verifyEmail later t1 (snd (resendVerification env now t2 em s)))
                = Inl (badRequest ''Invalid or expired verification token'')"
    if "\<not> isEmailVerified u" and "t1 \<noteq> t2"
      and "\<forall>v \<in> set (users s). uid v \<noteq> uid u \<longrightarrow> emailVerificationToken v \<noteq> Some t1"
  proof -
    have "findByVerificationToken t1 later (updateUser (uid u) ?g (users s)) = None"
      using that by (intro findByVerificationToken_cleared) auto
    then show ?thesis
      by (simp add: verifyEmail_def users_g [OF that(1)])
  qed
  from stored_f other_f old_f stored_g other_g old_g show ?thesis by blast
qed

theorem C10_one_token_of_each_kind_witness:
  "findByEmail ''ann@x.com'' (users db0) = Some ann
   \<and> passwordResetToken ann = Some ''r1''
   \<and> emailVerificationToken ann = Some ''v1''
   \<and> fst (resetPassword env0 2000 ''r1'' ''P9'' db0) = Inr ''Password reset successfully''
   \<and> fst (verifyEmail 2000 ''v1'' db0) = Inr ''Email verified successfully''
   \<and> fst (resetPassword env0 2000 ''r1'' ''P9'' (snd (forgotPassword env0 1000 ''r2'' ''ann@x.com'' db0)))
       = Inl (badRequest ''Invalid or expired reset token'')
   \<and> fst (verifyEmail 2000 ''v1'' (snd (resendVerification env0 1000 ''v2'' ''ann@x.com'' db0)))
       = Inl (badRequest ''Invalid or expired verification token'')"
proof -
  have found: "findByEmail ''ann@x.com'' (users db0) = Some ann"
    by (simp add: findByEmail_def toLowerCase_def lower_char_def db0_def ann_def)
  have held: "passwordResetToken ann = Some ''r1''" "emailVerificationToken ann = Some ''v1''"
    by (simp_all add: ann_def)
  have before_r: "fst (resetPassword env0 2000 ''r1'' ''P9'' db0) = Inr ''Password reset successfully''"
    by (simp add: resetPassword_def findByResetToken_def db0_def ann_def)
  have before_v: "fst (verifyEmail 2000 ''v1'' db0) = Inr ''Email verified successfully''"
    by (simp add: verifyEmail_def findByVerificationToken_def db0_def ann_def)
  have fresh: "''r1'' \<noteq> ''r2''" "''v1'' \<noteq> ''v2''"
    by simp_all
  have others_r: "\<forall>v \<in> set (users db0). uid v \<noteq> uid ann \<longrightarrow> passwordResetToken v \<noteq> Some ''r1''"
    by (simp add: db0_def ann_def bob_def)
  have others_v: "\<forall>v \<in> set (users db0). uid v \<noteq> uid ann \<longrightarrow> emailVerificationToken v \<noteq> Some ''v1''"
    by (simp add: db0_def ann_def bob_def)
  have unverified: "\<not> isEmailVerified ann"
    by (simp add: ann_def)
  have after_r: "fst (resetPassword env0 2000 ''r1'' ''P9''
        (snd (forgotPassword env0 1000 ''r2'' ''ann@x.com'' db0)))
       = Inl (badRequest ''Invalid or expired reset token'')"
    using C10_one_token_of_each_kind
        [OF found, where env = env0 and now = 1000 and ?t2.0 = "''r2''" and ?t1.0 = "''r1''"
          and later = 2000 and newPassword = "''P9''"]
      fresh(1) others_r by blast
  have after_v: "fst (verifyEmail 2000 ''v1'' (snd (resendVerification env0 1000 ''v2'' ''ann@x.com'' db0)))
       = Inl (badRequest ''Invalid or expired verification token'')"
    using C10_one_token_of_each_kind
        [OF found, where env = env0 and now = 1000 and ?t2.0 = "''v2''" and ?t1.0 = "''v1''"
          and later = 2000]
      fresh(2) others_v unverified by blast
  from found held before_r before_v after_r after_v show ?thesis by blast
qed

text \<open>
  C1, as stated, fails. \<open>resetPassword\<close> reads with \<open>findOne\<close> and writes with a
  later \<open>save\<close>; when two calls with the same token both read before either writes,
  both return success and the password is the one of the call that wrote last.
\<close>

theorem C1_interleaved_resets_counterexample:
  "fst (run_two env0 1000 [True, False, True, True, False, False]
          (Called ''r1'' ''P8'', Called ''r1'' ''P9'', db0))
     = Returned (Inr ''Password reset successfully'')
   \<and> fst (snd (run_two env0 1000 [True, False, True, True, False, False]
          (Called ''r1'' ''P8'', Called ''r1'' ''P9'', db0)))
     = Returned (Inr ''Password reset successfully'')
   \<and> map password (users (snd (snd (run_two env0 1000 [True, False, True, True, False, False]
          (Called ''r1'' ''P8'', Called ''r1'' ''P9'', db0)))))
     = [''hashed:P9'', ''hashed:P2'']"
  by (simp add: findByResetToken_def saveNewPassword_def updateUser_def
      removeAllRefreshTokens_def db0_def env0_def ann_def bob_def)

lemma reset_steps_are_resetPassword:
  "run_two env now [True, True, True] (Called t newPassword, b, s)
     = (Returned (fst (resetPassword env now t newPassword s)), b,
        snd (resetPassword env now t newPassword s))"
  by (simp add: resetPassword_def Let_def split: option.splits)

text \<open>
  C1, amended. A reset token, and likewise a verification token, that no other user
  holds is consumed by a read followed by a separate write. When two calls with the same
  token run one after the other, the first succeeds and clears the token, and the second
  fails with the 400 error \<open>Invalid or expired reset token\<close> (respectively
  \<open>Invalid or expired verification token\<close>) and leaves the store as the first call
  left it, so that the password is the one of the first call.
\<close>

theorem C1_sequential_single_use:
  "(findByResetToken t now (users s) = Some u
      \<and> (\<forall>v \<in> set (users s). uid v \<noteq> uid u \<longrightarrow> passwordResetToken v \<noteq> Some t)
    \<longrightarrow>
      resetPassword env now t p1 s
       = (Inr ''Password reset successfully'',
          s\<lparr>users := saveNewPassword env u p1 (users s),
            tokens := removeAllRefreshTokens (uid u) (tokens s)\<rparr>)
      \<and> resetPassword env later t p2 (snd (resetPassword env now t p1 s))
       = (Inl (badRequest ''Invalid or expired reset token''), snd (resetPassword env now t p1 s))
      \<and> run_two env now [True, True, True, False, False, False] (Called t p1, Called t p2, s)
       = (Returned (Inr ''Password reset successfully''),
          Returned (Inl (badRequest ''Invalid or expired reset token'')),
          snd (resetPassword env now t p1 s)))
   \<and> (findByVerificationToken t now (users s) = Some u
      \<and> (\<forall>v \<in> set (users s). uid v \<noteq> uid u \<longrightarrow> emailVerificationToken v \<noteq> Some t)
    \<longrightarrow>
      fst (verifyEmail now t s) = Inr ''Email verified successfully''
      \<and> verifyEmail later t (snd (verifyEmail now t s))
       = (Inl (badRequest ''Invalid or expired verification token''), snd (verifyEmail now t s)))"
proof -
  have reset: "resetPassword env now t p1 s
       = (Inr ''Password reset successfully'',
          s\<lparr>users := saveNewPassword env u p1 (users s),
            tokens := removeAllRefreshTokens (uid u) (tokens s)\<rparr>)
      \<and> resetPassword env later t p2 (snd (resetPassword env now t p1 s))
       = (Inl (badRequest ''Invalid or expired reset token''), snd (resetPassword env now t p1 s))
      \<and> run_two env now [True, True, True, False, False, False] (Called t p1, Called t p2, s)
       = (Returned (Inr ''Password reset successfully''),
          Returned (Inl (badRequest ''Invalid or expired reset token'')),
          snd (resetPassword env now t p1 s))"
    if found: "findByResetToken t now (users s) = Some u"
      and unique: "\<forall>v \<in> set (users s). uid v \<noteq> uid u \<longrightarrow> passwordResetToken v \<noteq> Some t"
  proof -
    let ?s' = "snd (resetPassword env now t p1 s)"
    have first: "resetPassword env now t p1 s
         = (Inr ''Password reset successfully'',
            s\<lparr>users := saveNewPassword env u p1 (users s),
              tokens := removeAllRefreshTokens (uid u) (tokens s)\<rparr>)"
      using found by (simp add: resetPassword_def Let_def)
    have gone: "findByResetToken t any (users ?s') = None" for any
      unfolding first using unique
      by (simp add: saveNewPassword_def findByResetToken_cleared)
    have second: "resetPassword env later t p2 ?s'
         = (Inl (badRequest ''Invalid or expired reset token''), ?s')"
      using gone [of later] by (simp add: resetPassword_def)
    have "run_two env now [True, True, True, False, False, False] (Called t p1, Called t p2, s)
        = run_two env now [False, False, False]
            (Returned (fst (resetPassword env now t p1 s)), Called t p2, ?s')"
      using reset_steps_are_resetPassword [of env now t p1 "Called t p2" s]
      by (simp add: resetPassword_def Let_def split: option.splits)
    also have "\<dots> = (Returned (Inr ''Password reset successfully''),
            Returned (Inl (badRequest ''Invalid or expired reset token'')), ?s')"
      using gone [of now] by (simp add: first)
    finally show ?thesis using first second by simp
  qed
  have verify: "fst (verifyEmail now t s) = Inr ''Email verified successfully''
      \<and> verifyEmail later t (snd (verifyEmail now t s))
       = (Inl (badRequest ''Invalid or expired verification token''), snd (verifyEmail now t s))"
    if found: "findByVerificationToken t now (users s) = Some u"
      and unique: "\<forall>v \<in> set (users s). uid v \<noteq> uid u \<longrightarrow> emailVerificationToken v \<noteq> Some t"
  proof -
    let ?s' = "snd (verifyEmail now t s)"
    have first: "verifyEmail now t s
         = (Inr ''Email verified successfully'',
            s\<lparr>users := updateUser (uid u)
                (\<lambda>d. d\<lparr>isEmailVerified := True, emailVerificationToken := None,
                        emailVerificationExpires := None\<rparr>) (users s)\<rparr>)"
      using found by (simp add: verifyEmail_def)
    have gone: "findByVerificationToken t later (users ?s') = None"
      unfolding first using unique
      by (simp add: findByVerificationToken_cleared)
    then have "verifyEmail later t ?s'
         = (Inl (badRequest ''Invalid or expired verification token''), ?s')"
      by (simp add: verifyEmail_def)
    with first show ?thesis by simp
  qed
  from reset verify show ?thesis by blast
qed

theorem C1_sequential_single_use_witness:
  "findByResetToken ''r1'' 1000 (users db0) = Some ann
   \<and> findByVerificationToken ''v1'' 1000 (users db0) = Some ann
   \<and> fst (resetPassword env0 1000 ''r1'' ''P8'' db0) = Inr ''Password reset successfully''
   \<and> fst (resetPassword env0 2000 ''r1'' ''P9'' (snd (resetPassword env0 1000 ''r1'' ''P8'' db0)))
       = Inl (badRequest ''Invalid or expired reset token'')
   \<and> map password
        (users (snd (resetPassword env0 2000 ''r1'' ''P9'' (snd (resetPassword env0 1000 ''r1'' ''P8'' db0)))))
       = [''hashed:P8'', ''hashed:P2'']
   \<and> fst (verifyEmail 1000 ''v1'' db0) = Inr ''Email verified successfully''
   \<and> fst (verifyEmail 2000 ''v1'' (snd (verifyEmail 1000 ''v1'' db0)))
       = Inl (badRequest ''Invalid or expired verification token'')"
proof -
  have found_r: "findByResetToken ''r1'' 1000 (users db0) = Some ann"
    by (simp add: findByResetToken_def db0_def ann_def)
  have found_v: "findByVerificationToken ''v1'' 1000 (users db0) = Some ann"
    by (simp add: findByVerificationToken_def db0_def ann_def)
  have others_r: "\<forall>v \<in> set (users db0). uid v \<noteq> uid ann \<longrightarrow> passwordResetToken v \<noteq> Some ''r1''"
    by (simp add: db0_def ann_def bob_def)
  have others_v: "\<forall>v \<in> set (users db0). uid v \<noteq> uid ann \<longrightarrow> emailVerificationToken v \<noteq> Some ''v1''"
    by (simp add: db0_def ann_def bob_def)
  have r: "resetPassword env0 1000 ''r1'' ''P8'' db0
       = (Inr ''Password reset successfully'',
          db0\<lparr>users := saveNewPassword env0 ann ''P8'' (users db0),
            tokens := removeAllRefreshTokens (uid ann) (tokens db0)\<rparr>)
      \<and> resetPassword env0 2000 ''r1'' ''P9'' (snd (resetPassword env0 1000 ''r1'' ''P8'' db0))
       = (Inl (badRequest ''Invalid or expired reset token''),
          snd (resetPassword env0 1000 ''r1'' ''P8'' db0))"
    using C1_sequential_single_use [of "''r1''" 1000 db0 ann env0 "''P8''" 2000 "''P9''"]
      found_r others_r by blast
  have v: "fst (verifyEmail 1000 ''v1'' db0) = Inr ''Email verified successfully''
      \<and> verifyEmail 2000 ''v1'' (snd (verifyEmail 1000 ''v1'' db0))
       = (Inl (badRequest ''Invalid or expired verification token''), snd (verifyEmail 1000 ''v1'' db0))"
    using C1_sequential_single_use [of "''v1''" 1000 db0 ann env0 "''P8''" 2000 "''P9''"]
      found_v others_v by blast
  have pw: "map password
        (users (snd (resetPassword env0 2000 ''r1'' ''P9'' (snd (resetPassword env0 1000 ''r1'' ''P8'' db0)))))
       = [''hashed:P8'', ''hashed:P2'']"
    by (simp add: resetPassword_def findByResetToken_def saveNewPassword_def updateUser_def
        db0_def env0_def ann_def bob_def)
  have r1: "fst (resetPassword env0 1000 ''r1'' ''P8'' db0) = Inr ''Password reset successfully''"
    by (simp add: conjunct1 [OF r])
  have r2: "fst (resetPassword env0 2000 ''r1'' ''P9'' (snd (resetPassword env0 1000 ''r1'' ''P8'' db0)))
       = Inl (badRequest ''Invalid or expired reset token'')"
    by (simp add: conjunct2 [OF r])
  have v1: "fst (verifyEmail 1000 ''v1'' db0) = Inr ''Email verified successfully''"
    by (rule conjunct1 [OF v])
  have v2: "fst (verifyEmail 2000 ''v1'' (snd (verifyEmail 1000 ''v1'' db0)))
       = Inl (badRequest ''Invalid or expired verification token'')"
    by (simp add: conjunct2 [OF v])
  from found_r found_v r1 r2 pw v1 v2 show ?thesis by blast
qed

section \<open>Login\<close>

text \<open>
  C6, as stated, fails: with a wrong password, the email of a locked account is answered
  with \<open>Account is temporarily locked\<close>, an unknown email with
  \<open>Invalid email or password\<close>.
\<close>

theorem C6_counterexample_locked:
  "findByEmail ''nobody@x.com'' (users db0) = None
   \<and> findByEmail ''bob@x.com'' (users db0) = Some bob
   \<and> \<not> bcrypt_compare env0 ''wrong'' (password bob)
   \<and> fst (login env0 1000 ''nobody@x.com'' ''wrong'' db0)
       = Inl (ApiError ''Invalid email or password'' 401 True)
   \<and> fst (login env0 1000 ''bob@x.com'' ''wrong'' db0)
       = Inl (ApiError ''Account is temporarily locked. Please try again later.'' 401 True)
   \<and> fst (login env0 1000 ''nobody@x.com'' ''wrong'' db0)
       \<noteq> fst (login env0 1000 ''bob@x.com'' ''wrong'' db0)"
  by (simp add: login_def findByEmail_def toLowerCase_def lower_char_def isLocked_def
      invalidCredentials_def unauthorized_def db0_def env0_def ann_def bob_def)

text \<open>
  C6, amended. A login with an email that no user has fails with the 401 error
  \<open>Invalid email or password\<close>, and so does, with the same error, a login with a wrong
  password for a user who is active and not locked. For a locked user the error is
  \<open>Account is temporarily locked\<close> and for an unlocked, deactivated one
  \<open>Account is deactivated or deleted\<close>, whatever the password.
\<close>

theorem C6_same_failure:
  assumes unknown: "findByEmail e1 (users s1) = None"
    and known: "findByEmail e2 (users s2) = Some u"
  shows "fst (login env now1 e1 pw1 s1) = Inl (ApiError ''Invalid email or password'' 401 True)
    \<and> (\<not> isLocked u now2 \<and> isActive u \<and> \<not> bcrypt_compare env pw2 (password u) \<longrightarrow>
         fst (login env now2 e2 pw2 s2) = fst (login env now1 e1 pw1 s1))
    \<and> (isLocked u now2 \<longrightarrow>
         fst (login env now2 e2 pw2 s2)
           = Inl (ApiError ''Account is temporarily locked. Please try again later.'' 401 True))
    \<and> (\<not> isLocked u now2 \<and> \<not> isActive u \<longrightarrow>
         fst (login env now2 e2 pw2 s2)
           = Inl (ApiError ''Account is deactivated or deleted'' 401 True))"
  using unknown known findByEmail_not_deleted [OF known]
  by (simp add: login_def invalidCredentials_def unauthorized_def)

theorem C6_same_failure_witness:
  "findByEmail ''nobody@x.com'' (users db0) = None
   \<and> findByEmail ''ann@x.com'' (users db0) = Some ann
   \<and> \<not> isLocked ann 1000 \<and> isActive ann \<and> \<not> bcrypt_compare env0 ''wrong'' (password ann)
   \<and> fst (login env0 1000 ''ann@x.com'' ''wrong'' db0)
       = Inl (ApiError ''Invalid email or password'' 401 True)
   \<and> fst (login env0 1000 ''ann@x.com'' ''wrong'' db0)
       = fst (login env0 2000 ''nobody@x.com'' ''P1'' db0)"
proof -
  have unknown: "findByEmail ''nobody@x.com'' (users db0) = None"
    by (simp add: findByEmail_def toLowerCase_def lower_char_def db0_def ann_def bob_def)
  have known: "findByEmail ''ann@x.com'' (users db0) = Some ann"
    by (simp add: findByEmail_def toLowerCase_def lower_char_def db0_def ann_def)
  have state: "\<not> isLocked ann 1000" "isActive ann" "\<not> bcrypt_compare env0 ''wrong'' (password ann)"
    by (simp_all add: isLocked_def ann_def env0_def)
  from C6_same_failure [OF unknown known, of env0 2000 "''P1''" 1000 "''wrong''"] state
  have "fst (login env0 2000 ''nobody@x.com'' ''P1'' db0)
        = Inl (ApiError ''Invalid email or password'' 401 True)
    \<and> fst (login env0 1000 ''ann@x.com'' ''wrong'' db0)
        = fst (login env0 2000 ''nobody@x.com'' ''P1'' db0)"
    by blast
  with unknown known state show ?thesis by simp
qed


text \<open>
  C2 holds up to its last step, where the code fails. A user is locked exactly while
  \<open>lockUntil\<close> is in the future. For the user found by the email: a wrong password for
  an unlocked, active user fails and stores the counter plus one, and a lock of two
  hours from now when that reaches 5; a login of a locked user fails and changes
  nothing, whatever the password; the right password for an unlocked, active user
  stores counter 0 and no lock. That login then does not succeed: it always ends in an
  error, and when the user's role exists the error is the 500
  \<open>Failed to store refresh token\<close>, since the refresh token document is saved without
  the expiry its schema requires.
\<close>

theorem C2_lockout:
  assumes found: "findByEmail em (users s) = Some u"
  shows "(isLocked u now \<longleftrightarrow> (\<exists>t. lockUntil u = Some t \<and> now < t))
    \<and> (\<not> isLocked u now \<and> isActive u \<and> \<not> bcrypt_compare env pw (password u) \<longrightarrow>
         fst (login env now em pw s) = Inl (ApiError ''Invalid email or password'' 401 True)
         \<and> findByEmail em (users (snd (login env now em pw s)))
            = Some (u\<lparr>loginAttempts := loginAttempts u + 1,
                      lockUntil := (if loginAttempts u + 1 \<ge> 5
                                    then Some (now + 2 * 60 * 60 * 1000) else lockUntil u)\<rparr>))
    \<and> (isLocked u now \<longrightarrow>
         login env now em pw s
           = (Inl (ApiError ''Account is temporarily locked. Please try again later.'' 401 True), s))
    \<and> (\<not> isLocked u now \<and> isActive u \<and> bcrypt_compare env pw (password u) \<longrightarrow>
         findByEmail em (users (snd (login env now em pw s)))
            = Some (u\<lparr>loginAttempts := 0, lockUntil := None, lastLogin := Some now\<rparr>)
         \<and> (\<exists>e. fst (login env now em pw s) = Inl e)
         \<and> (findById (urole u) (roles s) \<noteq> None \<longrightarrow>
              fst (login env now em pw s)
                = Inl (ApiError ''Failed to store refresh token'' 500 False)))"
proof -
  note alive = findByEmail_not_deleted [OF found]
  have locked_iff: "isLocked u now \<longleftrightarrow> (\<exists>t. lockUntil u = Some t \<and> now < t)"
    by (simp add: isLocked_def split: option.splits)
  have failure: "fst (login env now em pw s) = Inl (ApiError ''Invalid email or password'' 401 True)
         \<and> findByEmail em (users (snd (login env now em pw s)))
            = Some (u\<lparr>loginAttempts := loginAttempts u + 1,
                      lockUntil := (if loginAttempts u + 1 \<ge> 5
                                    then Some (now + 2 * 60 * 60 * 1000) else lockUntil u)\<rparr>)"
    if "\<not> isLocked u now" "isActive u" "\<not> bcrypt_compare env pw (password u)"
  proof -
    let ?f = "\<lambda>d. d\<lparr>loginAttempts := loginAttempts u + 1,
                      lockUntil := Some (now + 2 * 60 * 60 * 1000)\<rparr>"
    let ?g = "\<lambda>d. d\<lparr>loginAttempts := loginAttempts u + 1\<rparr>"
    have res: "login env now em pw s
        = (Inl (invalidCredentials ''Invalid email or password''),
           s\<lparr>users := incrementLoginAttempts u now (users s)\<rparr>)"
      using found that alive by (simp add: login_def)
    have "findByEmail em (incrementLoginAttempts u now (users s))
        = Some (if loginAttempts u + 1 \<ge> 5 then ?f u else ?g u)"
      using found by (simp add: incrementLoginAttempts_def findByEmail_updateUser)
    with res show ?thesis
      by (simp add: invalidCredentials_def)
  qed
  have locked: "login env now em pw s
           = (Inl (ApiError ''Account is temporarily locked. Please try again later.'' 401 True), s)"
    if "isLocked u now"
    using found that by (simp add: login_def unauthorized_def)
  have right: "findByEmail em (users (snd (login env now em pw s)))
            = Some (u\<lparr>loginAttempts := 0, lockUntil := None, lastLogin := Some now\<rparr>)
         \<and> (\<exists>e. fst (login env now em pw s) = Inl e)
         \<and> (findById (urole u) (roles s) \<noteq> None \<longrightarrow>
              fst (login env now em pw s)
                = Inl (ApiError ''Failed to store refresh token'' 500 False))"
    if "\<not> isLocked u now" "isActive u" "bcrypt_compare env pw (password u)"
  proof -
    let ?h = "\<lambda>d. d\<lparr>loginAttempts := 0, lockUntil := None, lastLogin := Some now\<rparr>"
    have written: "updateUser (uid u) (\<lambda>d. d\<lparr>lastLogin := Some now\<rparr>)
          (resetLoginAttempts u (users s)) = updateUser (uid u) ?h (users s)"
      by (simp add: resetLoginAttempts_def updateUser_twice)
    have users': "users (snd (login env now em pw s)) = updateUser (uid u) ?h (users s)"
      using found that alive written
      by (simp add: login_def Let_def storeRefreshToken_throws split: option.splits)
    have stored: "findByEmail em (users (snd (login env now em pw s))) = Some (?h u)"
      unfolding users' using found by (intro findByEmail_updateUser) simp_all
    have thrown: "\<exists>e. fst (login env now em pw s) = Inl e"
      using found that alive
      by (simp add: login_def Let_def storeRefreshToken_throws split: option.splits)
    have server_error: "fst (login env now em pw s)
                = Inl (ApiError ''Failed to store refresh token'' 500 False)"
      if "findById (urole u) (roles s) \<noteq> None"
      using found \<open>\<not> isLocked u now\<close> \<open>isActive u\<close> \<open>bcrypt_compare env pw (password u)\<close>
        alive that
      by (auto simp: login_def Let_def storeRefreshToken_throws internalError_def)
    from stored thrown server_error show ?thesis by blast
  qed
  from locked_iff failure locked right show ?thesis by blast
qed

lemma db4_eq: "db4 = db0\<lparr>users := [ann\<lparr>loginAttempts := 4\<rparr>, bob]\<rparr>"
  by (simp add: db4_def wrong_login_def login_def findByEmail_def toLowerCase_def lower_char_def
      isLocked_def incrementLoginAttempts_def updateUser_def db0_def env0_def ann_def bob_def)

theorem C2_lockout_witness:
  "findByEmail ''ann@x.com'' (users db4) = Some (ann\<lparr>loginAttempts := 4\<rparr>)
   \<and> fst (login env0 1000 ''ann@x.com'' ''wrong'' db4)
       = Inl (ApiError ''Invalid email or password'' 401 True)
   \<and> findByEmail ''ann@x.com'' (users db5)
       = Some (ann\<lparr>loginAttempts := 5, lockUntil := Some 7201000\<rparr>)
   \<and> bcrypt_compare env0 ''P1'' (password ann)
   \<and> login env0 7200999 ''ann@x.com'' ''P1'' db5
       = (Inl (ApiError ''Account is temporarily locked. Please try again later.'' 401 True), db5)
   \<and> findById 2 (roles db5) = Some user_role
   \<and> fst (login env0 7201000 ''ann@x.com'' ''P1'' db5)
       = Inl (ApiError ''Failed to store refresh token'' 500 False)
   \<and> findByEmail ''ann@x.com'' (users (snd (login env0 7201000 ''ann@x.com'' ''P1'' db5)))
       = Some (ann\<lparr>loginAttempts := 0, lockUntil := None, lastLogin := Some 7201000\<rparr>)"
proof -
  let ?ann4 = "ann\<lparr>loginAttempts := 4\<rparr>"
  let ?ann5 = "ann\<lparr>loginAttempts := 5, lockUntil := Some 7201000\<rparr>"
  have found4: "findByEmail ''ann@x.com'' (users db4) = Some ?ann4"
    by (simp add: db4_eq findByEmail_def toLowerCase_def lower_char_def ann_def)
  have fresh4: "\<not> isLocked ?ann4 1000" "isActive ?ann4"
      "\<not> bcrypt_compare env0 ''wrong'' (password ?ann4)"
    by (simp_all add: isLocked_def ann_def env0_def)
  from C2_lockout [OF found4, of 1000 env0 "''wrong''"] fresh4
  have fifth: "fst (login env0 1000 ''ann@x.com'' ''wrong'' db4)
        = Inl (ApiError ''Invalid email or password'' 401 True)
      \<and> findByEmail ''ann@x.com'' (users (snd (login env0 1000 ''ann@x.com'' ''wrong'' db4)))
        = Some (?ann4\<lparr>loginAttempts := loginAttempts ?ann4 + 1,
                      lockUntil := (if loginAttempts ?ann4 + 1 \<ge> 5
                                    then Some (1000 + 2 * 60 * 60 * 1000) else lockUntil ?ann4)\<rparr>)"
    by blast
  then have found5: "findByEmail ''ann@x.com'' (users db5) = Some ?ann5"
    by (simp add: db5_def wrong_login_def)
  have right: "bcrypt_compare env0 ''P1'' (password ann)"
    by (simp add: env0_def ann_def)
  have locked5: "isLocked ?ann5 7200999"
    by (simp add: isLocked_def)
  from C2_lockout [OF found5, of 7200999 env0 "''P1''"] locked5
  have sixth: "login env0 7200999 ''ann@x.com'' ''P1'' db5
       = (Inl (ApiError ''Account is temporarily locked. Please try again later.'' 401 True), db5)"
    by blast
  have elapsed: "\<not> isLocked ?ann5 7201000" "isActive ?ann5"
      "bcrypt_compare env0 ''P1'' (password ?ann5)"
    by (simp_all add: isLocked_def ann_def env0_def)
  have db5_eq: "db5 = db0\<lparr>users := [?ann5, bob]\<rparr>"
    by (simp add: db5_def wrong_login_def db4_eq login_def findByEmail_def toLowerCase_def
        lower_char_def isLocked_def incrementLoginAttempts_def updateUser_def db0_def env0_def
        ann_def bob_def)
  have role5: "findById 2 (roles db5) = Some user_role"
    by (simp add: db5_eq findById_def db0_def admin_role_def user_role_def)
  then have role_found: "findById (urole ?ann5) (roles db5) \<noteq> None"
    by (simp add: ann_def)
  from C2_lockout [OF found5, of 7201000 env0 "''P1''"] elapsed role_found
  have after: "findByEmail ''ann@x.com'' (users (snd (login env0 7201000 ''ann@x.com'' ''P1'' db5)))
       = Some (?ann5\<lparr>loginAttempts := 0, lockUntil := None, lastLogin := Some 7201000\<rparr>)
     \<and> fst (login env0 7201000 ''ann@x.com'' ''P1'' db5)
       = Inl (ApiError ''Failed to store refresh token'' 500 False)"
    by blast
  from found4 fifth found5 right sixth role5 after show ?thesis by simp
qed

section \<open>Roles\<close>

text \<open>
  C3, as stated, fails: \<open>updateRole\<close> refuses a lone \<open>isActive\<close> toggle of a system
  role.
\<close>

theorem C3_system_role_toggle_counterexample:
  "findById 1 (roles db0) = Some admin_role
   \<and> isSystem admin_role
   \<and> up_isActive toggle_active = Some False
   \<and> updateRole 1 toggle_active (roles db0) = Inl (ApiError ''Cannot update system roles'' 400 True)"
  by (simp add: updateRole_def findById_def badRequest_def db0_def admin_role_def toggle_active_def)

text \<open>
  C3, amended. For every role with \<open>isSystem = true\<close>, \<open>updateRole\<close> fails with the
  400 error \<open>Cannot update system roles\<close> whatever fields the update names, a lone
  \<open>isActive\<close> toggle included; nothing is saved.
\<close>

theorem C3_system_role_rejects_every_update:
  assumes "findById roleId rs = Some r" and "isSystem r"
  shows "updateRole roleId u rs = Inl (ApiError ''Cannot update system roles'' 400 True)"
  using assms by (simp add: updateRole_def badRequest_def)

theorem C3_system_role_rejects_every_update_witness:
  "findById 2 (roles db0) = Some user_role
   \<and> isSystem user_role
   \<and> updateRole 2 toggle_active (roles db0) = Inl (ApiError ''Cannot update system roles'' 400 True)"
proof -
  have found: "findById 2 (roles db0) = Some user_role"
    by (simp add: findById_def db0_def admin_role_def user_role_def)
  have system: "isSystem user_role"
    by (simp add: user_role_def)
  from found system C3_system_role_rejects_every_update [OF found system, of toggle_active]
  show ?thesis by blast
qed

lemma trim_editor: "trim ''editor'' = ''editor''" "trim ''Edits content'' = ''Edits content''"
  by (simp_all add: trim_def is_space_def)

lemma norm_editor: "spaces_to_dash (toLowerCase ''editor'') = ''editor''"
  by (simp add: toLowerCase_def lower_char_def is_space_def)

text \<open>
  C4 does not hold on the Mongoose model, whose save hooks never look at \<open>isDefault\<close>:
  creating a role with \<open>isDefault = true\<close> while \<open>user\<close> is the default leaves two
  active default roles.
\<close>

theorem C4_second_default_role:
  "active_defaults (roles db0) = [user_role]
   \<and> createRole 8 editor_data (roles db0) = Inr (editor_role, [admin_role, user_role, editor_role])
   \<and> active_defaults [admin_role, user_role, editor_role] = [user_role, editor_role]"
  by (simp add: createRole_def save_role_def new_Role_def validate_role_def permission_enum_def
      modifiedPaths_def pre_save_name_def pre_save_deletion_def pre_save_system_def
      trim_editor norm_editor active_defaults_def Let_def
      db0_def admin_role_def user_role_def editor_data_def editor_role_def)

text \<open>
  The Sequelize model's hook does clear the flag on every other role that is not deleted.
\<close>

lemma pg_beforeSave_clears_other_defaults:
  assumes "isDefault r"
  shows "\<forall>other \<in> set (snd (pg_beforeSave r True changedAny rs)).
           rid other \<noteq> rid r \<and> \<not> roleDeleted other \<longrightarrow> \<not> isDefault other"
  using assms by (auto simp: pg_beforeSave_def Let_def split: option.splits)

end
